theory Spec2Isabelle
  imports Main "HOL-Library.Word" "HOL-Library.AList" "HOL-Library.List_Lexorder"
begin

section \<open>JavaScript strings\<close>

text \<open>
  A JavaScript string is a sequence of 16-bit code units; \<open>length\<close> counts code units,
  and relational comparison of two strings is lexicographic on the code units.
\<close>

type_synonym code_unit = "16 word"
type_synonym jsstring = "code_unit list"

definition js :: "string \<Rightarrow> jsstring" where
  "js s = map of_char s"

text \<open>
  \<open>String.prototype.trim\<close> removes WhiteSpace and LineTerminator code units from both ends:
  TAB, LF, VT, FF, CR, SP, NBSP, U+1680, U+2000..U+200A, U+2028, U+2029, U+202F, U+205F,
  U+3000 and U+FEFF.
\<close>

definition is_ws :: "code_unit \<Rightarrow> bool" where
  "is_ws c \<longleftrightarrow> c \<in> set [0x0009, 0x000A, 0x000B, 0x000C, 0x000D, 0x0020, 0x00A0, 0x1680,
     0x2000, 0x2001, 0x2002, 0x2003, 0x2004, 0x2005, 0x2006, 0x2007, 0x2008, 0x2009, 0x200A,
     0x2028, 0x2029, 0x202F, 0x205F, 0x3000, 0xFEFF]"

definition trim :: "jsstring \<Rightarrow> jsstring" where
  "trim s = rev (dropWhile is_ws (rev (dropWhile is_ws s)))"

text \<open>\<open>Array.prototype.join\<close> on an array of strings.\<close>

fun join :: "jsstring \<Rightarrow> jsstring list \<Rightarrow> jsstring" where
  "join sep [] = []"
| "join sep [x] = x"
| "join sep (x # y # ys) = x @ sep @ join sep (y # ys)"

text \<open>Decimal rendering of a non-negative integer, as a template literal prints a number.\<close>

fun decimal :: "nat \<Rightarrow> jsstring" where
  "decimal n = (if n < 10 then [of_nat (48 + n)] else decimal (n div 10) @ [of_nat (48 + n mod 10)])"

declare decimal.simps [simp del]

section \<open>Errors\<close>

text \<open>
  A thrown \<open>Error\<close> object, or the error object of a response of the remote client; only
  its \<open>message\<close> is read by the code.
\<close>

datatype js_error = Error (message: jsstring)

text \<open>\<open>`${error}`\<close>: \<open>Error.prototype.toString\<close> with the default name.\<close>

definition error_toString :: "js_error \<Rightarrow> jsstring" where
  "error_toString e = (if message e = [] then js ''Error'' else js ''Error: '' @ message e)"

text \<open>
  \<open>handleError(operation, error)\<close> always throws; the model returns the error it throws.
  \<open>ERROR_MESSAGES\<close> is imported from \<open>./constants/app-constants\<close> and is a parameter here;
  the call to the logger has no effect on the result.
\<close>

definition handleError :: "(jsstring \<rightharpoonup> jsstring) \<Rightarrow> jsstring \<Rightarrow> js_error \<Rightarrow> js_error" where
  "handleError ERROR_MESSAGES operation err =
     (let errorMessage = (if message err = [] then js ''Unknown error'' else message err);
          prefix = (case ERROR_MESSAGES operation of
                      None \<Rightarrow> js ''Operation failed''
                    | Some m \<Rightarrow> if m = [] then js ''Operation failed'' else m)
      in Error (prefix @ js '': '' @ errorMessage))"

text \<open>The \<open>try { ... } catch (error) { this.handleError(op, error) }\<close> frame of every operation.\<close>

definition try_catch :: "(jsstring \<rightharpoonup> jsstring) \<Rightarrow> jsstring \<Rightarrow> js_error + 'a \<Rightarrow> js_error + 'a" where
  "try_catch ERROR_MESSAGES operation body =
     (case body of Inl e \<Rightarrow> Inl (handleError ERROR_MESSAGES operation e) | Inr v \<Rightarrow> Inr v)"

section \<open>Record shapes\<close>

record PasswordEntry =
  entry_id :: jsstring
  entry_service :: jsstring
  entry_username :: jsstring
  entry_password :: jsstring
  createdAt :: jsstring
  updatedAt :: jsstring

text \<open>\<open>CreatePasswordEntry = Omit<PasswordEntry, 'id' | 'createdAt' | 'updatedAt'>\<close>\<close>

record CreatePasswordEntry =
  new_service :: jsstring
  new_username :: jsstring
  new_password :: jsstring

text \<open>
  \<open>UpdatePasswordEntry = Partial<CreatePasswordEntry>\<close> is a type of the compiler only: at
  run time the argument of an update is an object with whatever own keys it carries (an
  object with further keys, a whole \<open>PasswordEntry\<close> say, is assignable to it). An object
  is the list of its own enumerable entries in insertion order; the value \<open>None\<close> stands
  for \<open>undefined\<close> or \<open>null\<close>. The empty object \<open>{}\<close> is the empty list.
\<close>

type_synonym js_object = "(jsstring \<times> jsstring option) list"

type_synonym UpdatePasswordEntry = js_object

text \<open>Reading a property, \<open>data.k\<close>: \<open>undefined\<close> when the object has no such key.\<close>

definition property :: "js_object \<Rightarrow> jsstring \<Rightarrow> jsstring option" where
  "property d k = (case map_of d k of None \<Rightarrow> None | Some v \<Rightarrow> v)"

text \<open>A \<open>CreatePasswordEntry\<close> seen as the object that \<open>validatePasswordData\<close> receives.\<close>

definition as_partial :: "CreatePasswordEntry \<Rightarrow> UpdatePasswordEntry" where
  "as_partial d = [(js ''service'', Some (new_service d)), (js ''username'', Some (new_username d)),
     (js ''password'', Some (new_password d))]"

text \<open>The columns of the remote table \<open>passwords\<close>.\<close>

datatype column = Id | Service | Username | Password | Created_at | Updated_at

fun column_name :: "column \<Rightarrow> jsstring" where
  "column_name Id = js ''id''"
| "column_name Service = js ''service''"
| "column_name Username = js ''username''"
| "column_name Password = js ''password''"
| "column_name Created_at = js ''created_at''"
| "column_name Updated_at = js ''updated_at''"

text \<open>A row as the remote returns it; \<open>None\<close> is a field that is absent or \<open>null\<close>.\<close>

record DatabasePasswordRow =
  row_id :: "jsstring option"
  row_service :: "jsstring option"
  row_username :: "jsstring option"
  row_password :: "jsstring option"
  created_at :: "jsstring option"
  updated_at :: "jsstring option"

fun row_get :: "DatabasePasswordRow \<Rightarrow> column \<Rightarrow> jsstring option" where
  "row_get r Id = row_id r"
| "row_get r Service = row_service r"
| "row_get r Username = row_username r"
| "row_get r Password = row_password r"
| "row_get r Created_at = created_at r"
| "row_get r Updated_at = updated_at r"

text \<open>JavaScript falsiness of an optional string: absent, \<open>null\<close>, \<open>undefined\<close> or \<open>""\<close>.\<close>

definition falsy :: "jsstring option \<Rightarrow> bool" where
  "falsy v = (case v of None \<Rightarrow> True | Some s \<Rightarrow> s = [])"

text \<open>A value that is a non-empty string of whitespace only.\<close>

definition whitespace_only :: "jsstring option \<Rightarrow> bool" where
  "whitespace_only v = (case v of None \<Rightarrow> False | Some s \<Rightarrow> s \<noteq> [] \<and> trim s = [])"

section \<open>Validation\<close>

text \<open>
  One clause of \<open>validatePasswordData\<close>:
  \<open>'k' in data && data.k && (!data.k.trim() || data.k.length > n)\<close>, on the value read
  for the key (\<open>None\<close> when the key is absent or its value is \<open>undefined\<close> or \<open>null\<close>).
\<close>

definition violates :: "nat \<Rightarrow> jsstring option \<Rightarrow> bool" where
  "violates n v = (case v of None \<Rightarrow> False | Some s \<Rightarrow> s \<noteq> [] \<and> (trim s = [] \<or> length s > n))"

definition validatePasswordData :: "UpdatePasswordEntry \<Rightarrow> js_error + unit" where
  "validatePasswordData d =
     (if violates 100 (property d (js ''service'')) then
        Inl (Error (js ''Service name must be between 1-100 characters''))
      else if violates 100 (property d (js ''username'')) then
        Inl (Error (js ''Username must be between 1-100 characters''))
      else if violates 500 (property d (js ''password'')) then
        Inl (Error (js ''Password must be between 1-500 characters''))
      else Inr ())"

section \<open>Search sanitization\<close>

text \<open>
  \<open>s.replace(/[%_]/g, r)\<close> with a replacement text \<open>r\<close> that holds no \<open>$\<close> pattern:
  every code unit \<open>%\<close> (0x25) or \<open>_\<close> (0x5F) is replaced by \<open>r\<close>.
\<close>

definition replace_wildcards :: "jsstring \<Rightarrow> jsstring \<Rightarrow> jsstring" where
  "replace_wildcards r s = concat (map (\<lambda>c. if c = 0x25 \<or> c = 0x5F then r else [c]) s)"

text \<open>\<open>s.replace(/[<>]/g, '')\<close>: the code units \<open><\<close> (0x3C) and \<open>>\<close> (0x3E) are removed.\<close>

definition strip_angle :: "jsstring \<Rightarrow> jsstring" where
  "strip_angle s = filter (\<lambda>c. c \<noteq> 0x3C \<and> c \<noteq> 0x3E) s"

text \<open>
  The replacement text of the first \<open>replace\<close>, as the source has it: a backslash (0x5C)
  followed by thirty-six further code units.
\<close>

definition wildcard_replacement :: jsstring where
  "wildcard_replacement = 0x5C # js ''04159cb3-9186-4414-9c28-af252a86395a''"

definition sanitizeSearchQuery :: "jsstring \<Rightarrow> jsstring" where
  "sanitizeSearchQuery query =
     take 100 (strip_angle (replace_wildcards wildcard_replacement (trim query)))"

section \<open>Conversion of a remote row\<close>

definition requiredFields :: "column list" where
  "requiredFields = [Id, Service, Username, Password, Created_at, Updated_at]"

text \<open>The \<open>for\<close> loop over \<open>requiredFields\<close>: the first field whose value is falsy.\<close>

fun first_missing :: "DatabasePasswordRow \<Rightarrow> column list \<Rightarrow> column option" where
  "first_missing r [] = None"
| "first_missing r (f # fs) = (if falsy (row_get r f) then Some f else first_missing r fs)"

text \<open>
  \<open>convertFromDatabase\<close>; the argument is \<open>None\<close> when the row itself is \<open>null\<close> or
  \<open>undefined\<close>. Past the loop every field holds a non-empty string, so \<open>the\<close> is only
  ever applied to \<open>Some\<close>.
\<close>

definition convertFromDatabase :: "DatabasePasswordRow option \<Rightarrow> js_error + PasswordEntry" where
  "convertFromDatabase dbRow =
     (case dbRow of
        None \<Rightarrow> Inl (Error (js ''Database row is null or undefined''))
      | Some r \<Rightarrow>
          (case first_missing r requiredFields of
             Some f \<Rightarrow> Inl (Error (js ''Missing required field: '' @ column_name f))
           | None \<Rightarrow>
               Inr \<lparr>entry_id = the (row_id r), entry_service = the (row_service r),
                    entry_username = the (row_username r), entry_password = the (row_password r),
                    createdAt = the (created_at r), updatedAt = the (updated_at r)\<rparr>))"

text \<open>\<open>rows.map(this.convertFromDatabase)\<close>: the first row that fails throws.\<close>

fun convert_all :: "DatabasePasswordRow list \<Rightarrow> js_error + PasswordEntry list" where
  "convert_all [] = Inr []"
| "convert_all (r # rs) =
     (case convertFromDatabase (Some r) of
        Inl e \<Rightarrow> Inl e
      | Inr x \<Rightarrow> (case convert_all rs of Inl e \<Rightarrow> Inl e | Inr xs \<Rightarrow> Inr (x # xs)))"

section \<open>The remote client\<close>

text \<open>
  The queries the service builds on \<open>supabase.from('passwords')\<close>, one constructor for each
  chain of builder calls:
  \<^item> \<open>Select_ordered\<close>: \<open>.select('*').order('updated_at', {ascending: false})\<close>
  \<^item> \<open>Select_or filter\<close>: \<open>.select('*').or(filter).order('updated_at', {ascending: false})\<close>
  \<^item> \<open>Insert_single row\<close>: \<open>.insert([row]).select().single()\<close>
  \<^item> \<open>Insert_many rows\<close>: \<open>.insert(rows).select()\<close>
  \<^item> \<open>Update_eq payload id\<close>: \<open>.update(payload).eq('id', id).select().single()\<close>
  \<^item> \<open>Count_all\<close>: \<open>.select('*', {count: 'exact', head: true})\<close>
  \<^item> \<open>Count_gte t\<close>: the same with \<open>.gte('created_at', t)\<close>

  The payload of an update is an object: its keys with their values.
\<close>

datatype request =
    Select_ordered
  | Select_or jsstring
  | Insert_single CreatePasswordEntry
  | Insert_many "CreatePasswordEntry list"
  | Update_eq "(jsstring \<times> jsstring) list" jsstring
  | Count_all
  | Count_gte jsstring

text \<open>What an awaited query resolves to: \<open>{data, error, count}\<close>, each possibly \<open>null\<close>.\<close>

record 'a response =
  data :: "'a option"
  error :: "js_error option"
  count :: "nat option"

text \<open>
  The client library is not part of the repository. It is a parameter: for each kind of
  result (a list of rows, a single row, no rows) a function from the query and the state
  of the remote to the response and the next state of the remote.
\<close>

record 'db supabase =
  rows_query :: "request \<Rightarrow> 'db \<Rightarrow> DatabasePasswordRow list response \<times> 'db"
  single_query :: "request \<Rightarrow> 'db \<Rightarrow> DatabasePasswordRow response \<times> 'db"
  head_query :: "request \<Rightarrow> 'db \<Rightarrow> unit response \<times> 'db"

text \<open>The world an operation runs in: the remote, and the queries issued so far.\<close>

record 'db world =
  remote :: 'db
  issued :: "request list"

definition await :: "(request \<Rightarrow> 'db \<Rightarrow> 'a response \<times> 'db) \<Rightarrow> request \<Rightarrow> 'db world
    \<Rightarrow> 'a response \<times> 'db world" where
  "await run rq w =
     (let (res, db') = run rq (remote w) in (res, \<lparr>remote = db', issued = issued w @ [rq]\<rparr>))"

section \<open>The operations of \<open>SupabasePasswordService\<close>\<close>

text \<open>
  Every operation takes \<open>ERROR_MESSAGES\<close>, the client and the world, and returns what the
  promise settles to (\<open>Inl\<close>: rejected with that error) together with the world it leaves.
  Calls to the logger are left out: they do not affect results or queries.
\<close>

text \<open>\<open>(data || [])\<close>\<close>

definition or_empty :: "'a list option \<Rightarrow> 'a list" where
  "or_empty d = (case d of None \<Rightarrow> [] | Some xs \<Rightarrow> xs)"

definition getAllPasswords :: "(jsstring \<rightharpoonup> jsstring) \<Rightarrow> 'db supabase \<Rightarrow> 'db world
    \<Rightarrow> (js_error + PasswordEntry list) \<times> 'db world" where
  "getAllPasswords M c w =
     (let (res, w') = await (rows_query c) Select_ordered w
      in (try_catch M (js ''FETCH_FAILED'')
            (case error res of
               Some e \<Rightarrow> Inl (handleError M (js ''FETCH_FAILED'') e)
             | None \<Rightarrow> convert_all (or_empty (data res))), w'))"

text \<open>The filter text \<open>`service.ilike.%${q}%,username.ilike.%${q}%`\<close>.\<close>

definition ilike_filter :: "jsstring \<Rightarrow> jsstring" where
  "ilike_filter q = js ''service.ilike.%'' @ q @ js ''%,username.ilike.%'' @ q @ js ''%''"

text \<open>
  With an empty sanitized query the promise of \<open>getAllPasswords\<close> is returned without
  being awaited, so its outcome, also a rejection, is the outcome of the search unchanged.
\<close>

definition searchPasswords :: "(jsstring \<rightharpoonup> jsstring) \<Rightarrow> 'db supabase \<Rightarrow> jsstring \<Rightarrow> 'db world
    \<Rightarrow> (js_error + PasswordEntry list) \<times> 'db world" where
  "searchPasswords M c query w =
     (let sanitizedQuery = sanitizeSearchQuery query
      in if sanitizedQuery = [] then getAllPasswords M c w
         else
           (let (res, w') = await (rows_query c) (Select_or (ilike_filter sanitizedQuery)) w
            in (try_catch M (js ''SEARCH_FAILED'')
                  (case error res of
                     Some e \<Rightarrow> Inl (handleError M (js ''SEARCH_FAILED'') e)
                   | None \<Rightarrow> convert_all (or_empty (data res))), w')))"

text \<open>The object literal \<open>{service: pwd.service, username: pwd.username, password: pwd.password}\<close>.\<close>

definition insert_row :: "CreatePasswordEntry \<Rightarrow> CreatePasswordEntry" where
  "insert_row pwd = \<lparr>new_service = new_service pwd, new_username = new_username pwd,
     new_password = new_password pwd\<rparr>"

definition addPassword :: "(jsstring \<rightharpoonup> jsstring) \<Rightarrow> 'db supabase \<Rightarrow> CreatePasswordEntry \<Rightarrow> 'db world
    \<Rightarrow> (js_error + PasswordEntry) \<times> 'db world" where
  "addPassword M c passwordData w =
     (case validatePasswordData (as_partial passwordData) of
        Inl e \<Rightarrow> (Inl (handleError M (js ''ADD_FAILED'') e), w)
      | Inr _ \<Rightarrow>
          (let (res, w') = await (single_query c) (Insert_single (insert_row passwordData)) w
           in (try_catch M (js ''ADD_FAILED'')
                 (case error res of
                    Some e \<Rightarrow> Inl (handleError M (js ''ADD_FAILED'') e)
                  | None \<Rightarrow> convertFromDatabase (data res)), w')))"

text \<open>\<open>Object.entries(passwordData)\<close>: every own enumerable key of the object with its value.\<close>

definition entries :: "UpdatePasswordEntry \<Rightarrow> (jsstring \<times> jsstring option) list" where
  "entries d = d"

text \<open>
  The callback of the reduce that builds \<open>updateFields\<close>: whatever the key,
  \<open>acc[key] = value\<close> when \<open>value !== undefined && value !== null && value.toString().trim()\<close>.
\<close>

definition keep_entry :: "jsstring \<times> jsstring option \<Rightarrow> (jsstring \<times> jsstring) list
    \<Rightarrow> (jsstring \<times> jsstring) list" where
  "keep_entry kv acc =
     (case snd kv of
        None \<Rightarrow> acc
      | Some s \<Rightarrow> if trim s \<noteq> [] then AList.update (fst kv) s acc else acc)"

definition updateFields :: "UpdatePasswordEntry \<Rightarrow> (jsstring \<times> jsstring) list" where
  "updateFields d = fold keep_entry (entries d) []"

definition updatePassword :: "(jsstring \<rightharpoonup> jsstring) \<Rightarrow> 'db supabase \<Rightarrow> jsstring
    \<Rightarrow> UpdatePasswordEntry \<Rightarrow> 'db world \<Rightarrow> (js_error + PasswordEntry) \<times> 'db world" where
  "updatePassword M c ident passwordData w =
     (if trim ident = [] then
        (Inl (handleError M (js ''UPDATE_FAILED'') (Error (js ''Password ID is required''))), w)
      else
        (case validatePasswordData passwordData of
           Inl e \<Rightarrow> (Inl (handleError M (js ''UPDATE_FAILED'') e), w)
         | Inr _ \<Rightarrow>
             (let payload = updateFields passwordData
              in if length payload = 0 then
                   (Inl (handleError M (js ''UPDATE_FAILED'')
                           (Error (js ''No valid fields to update''))), w)
                 else
                   (let (res, w') = await (single_query c) (Update_eq payload ident) w
                    in (try_catch M (js ''UPDATE_FAILED'')
                          (case error res of
                             Some e \<Rightarrow> Inl (handleError M (js ''UPDATE_FAILED'') e)
                           | None \<Rightarrow> convertFromDatabase (data res)), w')))))"

record stats =
  total :: nat
  recentCount :: nat

text \<open>\<open>count || 0\<close>\<close>

definition or_zero :: "nat option \<Rightarrow> nat" where
  "or_zero n = (case n of None \<Rightarrow> 0 | Some k \<Rightarrow> k)"

text \<open>
  A \<open>Date\<close> holds a time value: the milliseconds since 1970-01-01T00:00:00Z. The functions
  on time values are those of the language definition (\<open>Day\<close>, \<open>TimeWithinDay\<close>,
  \<open>DayFromYear\<close>, \<open>YearFromTime\<close>, \<open>MonthFromTime\<close>, \<open>DateFromTime\<close>, \<open>MakeDay\<close>,
  \<open>MakeDate\<close>, \<open>TimeClip\<close>); months count from 0. The local time zone adjustment of the
  runtime, \<open>LocalTZA(t, isUTC)\<close>, is a parameter \<open>tz\<close>.
\<close>

definition msPerDay :: int where
  "msPerDay = 86400000"

definition Day :: "int \<Rightarrow> int" where
  "Day t = t div msPerDay"

definition TimeWithinDay :: "int \<Rightarrow> int" where
  "TimeWithinDay t = t mod msPerDay"

definition DayFromYear :: "int \<Rightarrow> int" where
  "DayFromYear y = 365 * (y - 1970) + (y - 1969) div 4 - (y - 1901) div 100 + (y - 1601) div 400"

definition leap_year :: "int \<Rightarrow> bool" where
  "leap_year y \<longleftrightarrow> y mod 4 = 0 \<and> (y mod 400 = 0 \<or> y mod 100 \<noteq> 0)"

text \<open>
  The year of a day number: the \<open>y\<close> with \<open>DayFromYear y \<le> d < DayFromYear (y + 1)\<close>,
  found from the mean length of a year and corrected by one where needed.
\<close>

definition year_of_day :: "int \<Rightarrow> int" where
  "year_of_day d =
     (let y0 = 1970 + (400 * d) div 146097
      in if d < DayFromYear y0 then y0 - 1
         else if DayFromYear (y0 + 1) \<le> d then y0 + 1
         else y0)"

definition YearFromTime :: "int \<Rightarrow> int" where
  "YearFromTime t = year_of_day (Day t)"

definition DayWithinYear :: "int \<Rightarrow> int" where
  "DayWithinYear t = Day t - DayFromYear (YearFromTime t)"

text \<open>The day within the year on which month \<open>m\<close> starts.\<close>

definition month_start :: "int \<Rightarrow> bool \<Rightarrow> int" where
  "month_start m leap =
     (let L = (if leap then 1 else 0)
      in if m = 0 then 0 else if m = 1 then 31 else if m = 2 then 59 + L
         else if m = 3 then 90 + L else if m = 4 then 120 + L else if m = 5 then 151 + L
         else if m = 6 then 181 + L else if m = 7 then 212 + L else if m = 8 then 243 + L
         else if m = 9 then 273 + L else if m = 10 then 304 + L else 334 + L)"

definition month_of :: "int \<Rightarrow> bool \<Rightarrow> int" where
  "month_of dwy leap =
     (let L = (if leap then 1 else 0)
      in if dwy < 31 then 0 else if dwy < 59 + L then 1 else if dwy < 90 + L then 2
         else if dwy < 120 + L then 3 else if dwy < 151 + L then 4 else if dwy < 181 + L then 5
         else if dwy < 212 + L then 6 else if dwy < 243 + L then 7 else if dwy < 273 + L then 8
         else if dwy < 304 + L then 9 else if dwy < 334 + L then 10 else 11)"

definition MonthFromTime :: "int \<Rightarrow> int" where
  "MonthFromTime t = month_of (DayWithinYear t) (leap_year (YearFromTime t))"

definition DateFromTime :: "int \<Rightarrow> int" where
  "DateFromTime t =
     DayWithinYear t - month_start (MonthFromTime t) (leap_year (YearFromTime t)) + 1"

definition MakeDay :: "int \<Rightarrow> int \<Rightarrow> int \<Rightarrow> int" where
  "MakeDay year month date =
     (let ym = year + month div 12; mn = month mod 12
      in DayFromYear ym + month_start mn (leap_year ym) + date - 1)"

definition MakeDate :: "int \<Rightarrow> int \<Rightarrow> int" where
  "MakeDate day time = day * msPerDay + time"

text \<open>\<open>TimeClip\<close>: \<open>None\<close> is \<open>NaN\<close>, the time value of an invalid date.\<close>

definition TimeClip :: "int \<Rightarrow> int option" where
  "TimeClip t = (if \<bar>t\<bar> > 8640000000000000 then None else Some t)"

definition LocalTime :: "(int \<Rightarrow> bool \<Rightarrow> int) \<Rightarrow> int \<Rightarrow> int" where
  "LocalTime tz t = t + tz t True"

definition UTC :: "(int \<Rightarrow> bool \<Rightarrow> int) \<Rightarrow> int \<Rightarrow> int" where
  "UTC tz t = t - tz t False"

text \<open>\<open>Date.prototype.getDate\<close> and \<open>Date.prototype.setDate\<close> on a valid date.\<close>

definition getDate :: "(int \<Rightarrow> bool \<Rightarrow> int) \<Rightarrow> int \<Rightarrow> int" where
  "getDate tz t = DateFromTime (LocalTime tz t)"

definition setDate :: "(int \<Rightarrow> bool \<Rightarrow> int) \<Rightarrow> int \<Rightarrow> int \<Rightarrow> int option" where
  "setDate tz t dt =
     (let lt = LocalTime tz t;
          newDate = MakeDate (MakeDay (YearFromTime lt) (MonthFromTime lt) dt) (TimeWithinDay lt)
      in TimeClip (UTC tz newDate))"

text \<open>A number in decimal, with zeros in front up to the given width.\<close>

definition pad :: "nat \<Rightarrow> nat \<Rightarrow> jsstring" where
  "pad width n = replicate (width - length (decimal n)) 0x30 @ decimal n"

text \<open>
  \<open>Date.prototype.toISOString\<close> on a valid date: \<open>YYYY-MM-DDTHH:mm:ss.sssZ\<close> in UTC, the
  year with a sign and six digits outside 0 to 9999.
\<close>

definition toISOString :: "int \<Rightarrow> jsstring" where
  "toISOString t =
     (let y = YearFromTime t;
          year = (if 0 \<le> y \<and> y \<le> 9999 then pad 4 (nat y)
                  else (if y < 0 then js ''-'' else js ''+'') @ pad 6 (nat \<bar>y\<bar>))
      in year @ js ''-'' @ pad 2 (nat (MonthFromTime t + 1)) @ js ''-'' @ pad 2 (nat (DateFromTime t))
         @ js ''T'' @ pad 2 (nat ((t div 3600000) mod 24)) @ js '':''
         @ pad 2 (nat ((t div 60000) mod 60)) @ js '':'' @ pad 2 (nat ((t div 1000) mod 60))
         @ js ''.'' @ pad 3 (nat (t mod 1000)) @ js ''Z'')"

text \<open>
  \<open>const sevenDaysAgo = new Date(); sevenDaysAgo.setDate(sevenDaysAgo.getDate() - 7)\<close>,
  where \<open>now\<close> is the time value \<open>new Date()\<close> reads from the clock.
\<close>

definition sevenDaysAgo :: "(int \<Rightarrow> bool \<Rightarrow> int) \<Rightarrow> int \<Rightarrow> int option" where
  "sevenDaysAgo tz now = setDate tz now (getDate tz now - 7)"

text \<open>
  \<open>getPasswordStats\<close>. An error of the first query is thrown by \<open>handleError\<close> and caught
  by the \<open>catch\<close> of the operation, which returns zeros; so is the \<open>RangeError\<close> of
  \<open>toISOString\<close> on an invalid date. An error of the second query is only logged. The
  promise never rejects.
\<close>

definition getPasswordStats :: "'db supabase \<Rightarrow> (int \<Rightarrow> bool \<Rightarrow> int) \<Rightarrow> int \<Rightarrow> 'db world
    \<Rightarrow> stats \<times> 'db world" where
  "getPasswordStats c tz now w =
     (let (res1, w1) = await (head_query c) Count_all w
      in case error res1 of
           Some countError \<Rightarrow> (\<lparr>total = 0, recentCount = 0\<rparr>, w1)
         | None \<Rightarrow>
             (case sevenDaysAgo tz now of
                None \<Rightarrow> (\<lparr>total = 0, recentCount = 0\<rparr>, w1)
              | Some cutoff \<Rightarrow>
                  (let (res2, w2) = await (head_query c) (Count_gte (toISOString cutoff)) w1
                   in (\<lparr>total = or_zero (count res1), recentCount = or_zero (count res2)\<rparr>,
                       w2))))"

text \<open>
  The \<open>forEach\<close> of \<open>batchAddPasswords\<close>: the first entry that fails validation throws,
  with its one-based position in the message.
\<close>

fun validate_each :: "nat \<Rightarrow> CreatePasswordEntry list \<Rightarrow> js_error + unit" where
  "validate_each index [] = Inr ()"
| "validate_each index (pwd # rest) =
     (case validatePasswordData (as_partial pwd) of
        Inl e \<Rightarrow> Inl (Error (js ''Validation failed for password '' @ decimal (index + 1)
                          @ js '': '' @ error_toString e))
      | Inr _ \<Rightarrow> validate_each (index + 1) rest)"

definition batchAddPasswords :: "(jsstring \<rightharpoonup> jsstring) \<Rightarrow> 'db supabase
    \<Rightarrow> CreatePasswordEntry list \<Rightarrow> 'db world \<Rightarrow> (js_error + PasswordEntry list) \<times> 'db world" where
  "batchAddPasswords M c passwords w =
     (if length passwords = 0 then
        (Inl (handleError M (js ''ADD_FAILED'')
                (Error (js ''No passwords provided for batch insert''))), w)
      else
        (case validate_each 0 passwords of
           Inl e \<Rightarrow> (Inl (handleError M (js ''ADD_FAILED'') e), w)
         | Inr _ \<Rightarrow>
             (let (res, w') = await (rows_query c) (Insert_many (map insert_row passwords)) w
              in (try_catch M (js ''ADD_FAILED'')
                    (case error res of
                       Some e \<Rightarrow> Inl (handleError M (js ''ADD_FAILED'') e)
                     | None \<Rightarrow> convert_all (or_empty (data res))), w'))))"

section \<open>Configuration of the client module\<close>

record config =
  supabaseUrl :: "jsstring option"
  supabaseAnonKey :: "jsstring option"

text \<open>\<open>Object.entries(config)\<close>, in the order of the object literal.\<close>

definition config_entries :: "config \<Rightarrow> (jsstring \<times> jsstring option) list" where
  "config_entries cfg =
     [(js ''supabaseUrl'', supabaseUrl cfg), (js ''supabaseAnonKey'', supabaseAnonKey cfg)]"

definition validateConfig :: "config \<Rightarrow> js_error + unit" where
  "validateConfig cfg =
     (let missing = map fst (filter (\<lambda>(_, v). falsy v) (config_entries cfg))
      in if length missing > 0 then
           Inl (Error (js ''Missing environment variables: '' @ join (js '', '') missing))
         else Inr ())"

text \<open>
  Loading the module: \<open>validateConfig()\<close> runs first, then \<open>createClient\<close> (of the client
  library, a parameter) builds the exported client from the two values.
\<close>

definition load_module :: "(jsstring option \<Rightarrow> jsstring option \<Rightarrow> 'c) \<Rightarrow> config \<Rightarrow> js_error + 'c" where
  "load_module createClient cfg =
     (case validateConfig cfg of
        Inl e \<Rightarrow> Inl e
      | Inr _ \<Rightarrow> Inr (createClient (supabaseUrl cfg) (supabaseAnonKey cfg)))"

section \<open>The hosted table\<close>

text \<open>What the client library resolves to when a query fails: the error, no data, no count.\<close>

definition failed :: "js_error \<Rightarrow> 'a response" where
  "failed e = \<lparr>data = None, error = Some e, count = None\<rparr>"

text \<open>
  Modelled from the spec: the state of the hosted table \<open>passwords\<close>, whose schema and
  triggers are not among the sources. It holds the rows and the reading of the server's
  clock, which the environment advances between requests.
\<close>

record table =
  table_rows :: "DatabasePasswordRow list"
  server_now :: jsstring

text \<open>The column a key of a payload names, if any.\<close>

definition column_named :: "jsstring \<Rightarrow> column option" where
  "column_named k = List.find (\<lambda>c. column_name c = k) requiredFields"

fun row_set :: "column \<Rightarrow> jsstring \<Rightarrow> DatabasePasswordRow \<Rightarrow> DatabasePasswordRow" where
  "row_set Id v r = r\<lparr>row_id := Some v\<rparr>"
| "row_set Service v r = r\<lparr>row_service := Some v\<rparr>"
| "row_set Username v r = r\<lparr>row_username := Some v\<rparr>"
| "row_set Password v r = r\<lparr>row_password := Some v\<rparr>"
| "row_set Created_at v r = r\<lparr>created_at := Some v\<rparr>"
| "row_set Updated_at v r = r\<lparr>updated_at := Some v\<rparr>"

text \<open>Assignment of one entry of a payload, as \<open>update set\<close> does for each key.\<close>

definition set_column :: "jsstring \<times> jsstring \<Rightarrow> DatabasePasswordRow \<Rightarrow> DatabasePasswordRow" where
  "set_column kv r = (case column_named (fst kv) of None \<Rightarrow> r | Some c \<Rightarrow> row_set c (snd kv) r)"

text \<open>
  Modelled from the spec: what a mutation does to a row. The columns the payload names are
  assigned and \<open>updatedAt\<close> is refreshed to the reading of the server's clock, as on every
  successful mutation; nothing else moves.
\<close>

definition patch_row :: "jsstring \<Rightarrow> (jsstring \<times> jsstring) list \<Rightarrow> DatabasePasswordRow
    \<Rightarrow> DatabasePasswordRow" where
  "patch_row now payload r = (fold set_column payload r)\<lparr>updated_at := Some now\<rparr>"

text \<open>
  Modelled from the spec: \<open>update set {...} where id=eq returning row\<close> on the hosted
  table. A payload with a key that names no column is refused. \<open>.single()\<close> asks for
  exactly one row: with no row or several rows of that id the request fails. A request
  that fails leaves the table as it is.
\<close>

definition hosted_update :: "(jsstring \<times> jsstring) list \<Rightarrow> jsstring \<Rightarrow> table
    \<Rightarrow> DatabasePasswordRow response \<times> table" where
  "hosted_update payload ident t =
     (if \<not> list_all (\<lambda>kv. column_named (fst kv) \<noteq> None) payload then
        (failed (Error (js ''Could not find the column in the schema cache'')), t)
      else
        (case filter (\<lambda>r. row_id r = Some ident) (table_rows t) of
           [r] \<Rightarrow>
             (let r' = patch_row (server_now t) payload r
              in (\<lparr>data = Some r', error = None, count = None\<rparr>,
                  t\<lparr>table_rows :=
                      map (\<lambda>x. if row_id x = Some ident then r' else x) (table_rows t)\<rparr>))
         | _ \<Rightarrow>
             (failed (Error (js ''JSON object requested, multiple (or no) rows returned'')), t)))"

text \<open>
  Modelled from the spec: a client in front of the hosted table that serves updates. Every
  other query is answered as a failed request, which leaves the table as it is.
\<close>

definition hosted :: "table supabase" where
  "hosted =
     \<lparr>rows_query = (\<lambda>rq t. (failed (Error (js ''Failed to fetch'')), t)),
      single_query = (\<lambda>rq t. case rq of
                                 Update_eq payload ident \<Rightarrow> hosted_update payload ident t
                               | _ \<Rightarrow> (failed (Error (js ''Failed to fetch'')), t)),
      head_query = (\<lambda>rq t. (failed (Error (js ''Failed to fetch'')), t))\<rparr>"

text \<open>The row that carries the six fields of an application record.\<close>

definition row_of :: "PasswordEntry \<Rightarrow> DatabasePasswordRow" where
  "row_of e = \<lparr>row_id = Some (entry_id e), row_service = Some (entry_service e),
     row_username = Some (entry_username e), row_password = Some (entry_password e),
     created_at = Some (createdAt e), updated_at = Some (updatedAt e)\<rparr>"

section \<open>Sample data\<close>

text \<open>
  The record of the spec's concrete scenario, stored one day before the server's clock
  reading, and a world in which nothing has been issued yet.
\<close>

definition sample_row :: DatabasePasswordRow where
  "sample_row = \<lparr>row_id = Some (js ''r1''), row_service = Some (js ''Email''),
     row_username = Some (js ''a@b.com''), row_password = Some (js ''p''),
     created_at = Some (js ''2026-01-01T00:00:00.000Z''),
     updated_at = Some (js ''2026-01-01T00:00:00.000Z'')\<rparr>"

definition sample_world :: "table world" where
  "sample_world = \<lparr>remote = \<lparr>table_rows = [sample_row],
     server_now = js ''2026-01-02T00:00:00.000Z''\<rparr>, issued = []\<rparr>"

text \<open>A client that answers every query for rows with the rows of the table as stored.\<close>

definition serving_rows :: "table supabase" where
  "serving_rows = hosted\<lparr>rows_query :=
     (\<lambda>rq t. (\<lparr>data = Some (table_rows t), error = None, count = None\<rparr>, t))\<rparr>"

text \<open>
  A client whose count of all rows succeeds and whose every other count-only query fails.
\<close>

definition counting :: "table supabase" where
  "counting = hosted\<lparr>head_query := (\<lambda>rq t. case rq of
      Count_all \<Rightarrow> (\<lparr>data = None, error = None, count = Some (length (table_rows t))\<rparr>, t)
    | _ \<Rightarrow> (failed (Error (js ''Failed to fetch'')), t))\<rparr>"

text \<open>
  A client whose count-only queries both succeed: all rows, and the rows whose \<open>created_at\<close>
  is not before the given text.
\<close>

definition counting_recent :: "table supabase" where
  "counting_recent = hosted\<lparr>head_query := (\<lambda>rq t. case rq of
      Count_all \<Rightarrow> (\<lparr>data = None, error = None, count = Some (length (table_rows t))\<rparr>, t)
    | Count_gte s \<Rightarrow>
        (\<lparr>data = None, error = None,
          count = Some (length (filter (\<lambda>r. case created_at r of None \<Rightarrow> False | Some c \<Rightarrow> s \<le> c)
                                       (table_rows t)))\<rparr>, t)
    | _ \<Rightarrow> (failed (Error (js ''Failed to fetch'')), t))\<rparr>"

text \<open>The runtime of a browser seven hours east of Greenwich, with no daylight saving.\<close>

definition indochina :: "int \<Rightarrow> bool \<Rightarrow> int" where
  "indochina t isUTC = 25200000"


text \<open>A valid entry followed by one whose service is the empty string.\<close>

definition gap_batch :: "CreatePasswordEntry list" where
  "gap_batch =
     [\<lparr>new_service = js ''a'', new_username = js ''u1'', new_password = js ''p1''\<rparr>,
      \<lparr>new_service = [], new_username = js ''u2'', new_password = js ''p2''\<rparr>]"

text \<open>Five valid entries and, third of six, one whose username is two spaces.\<close>

definition sample_batch :: "CreatePasswordEntry list" where
  "sample_batch =
     [\<lparr>new_service = js ''a'', new_username = js ''u1'', new_password = js ''p1''\<rparr>,
      \<lparr>new_service = js ''b'', new_username = js ''u2'', new_password = js ''p2''\<rparr>,
      \<lparr>new_service = js ''c'', new_username = js ''  '', new_password = js ''p3''\<rparr>,
      \<lparr>new_service = js ''d'', new_username = js ''u4'', new_password = js ''p4''\<rparr>,
      \<lparr>new_service = js ''e'', new_username = js ''u5'', new_password = js ''p5''\<rparr>,
      \<lparr>new_service = js ''f'', new_username = js ''u6'', new_password = js ''p6''\<rparr>]"

section \<open>Trimming\<close>


lemma trim_eq_Nil_iff: "trim s = [] \<longleftrightarrow> (\<forall>c\<in>set s. is_ws c)"
proof
  assume "trim s = []"
  then have "dropWhile is_ws (rev (dropWhile is_ws s)) = []"
    by (simp add: trim_def)
  then have all: "\<forall>c\<in>set (dropWhile is_ws s). is_ws c"
    by simp
  have "dropWhile is_ws s = []"
  proof (rule ccontr)
    assume ne: "dropWhile is_ws s \<noteq> []"
    then have "\<not> is_ws (hd (dropWhile is_ws s))" by (rule hd_dropWhile)
    moreover have "hd (dropWhile is_ws s) \<in> set (dropWhile is_ws s)" using ne by simp
    ultimately show False using all by blast
  qed
  then show "\<forall>c\<in>set s. is_ws c" by simp
next
  assume "\<forall>c\<in>set s. is_ws c"
  then show "trim s = []" by (auto simp: trim_def dest: set_dropWhileD)
qed

lemma sanitize_blank:
  assumes "\<forall>c\<in>set query. is_ws c"
  shows "sanitizeSearchQuery query = []"
proof -
  from assms have "trim query = []" by (simp only: trim_eq_Nil_iff)
  then show ?thesis by (simp add: sanitizeSearchQuery_def replace_wildcards_def strip_angle_def)
qed

lemma trim_Nil [simp]: "trim [] = []"
  by (simp add: trim_def)

section \<open>Validation before an insert\<close>

lemma validate_cases:
  "validatePasswordData d = Inr () \<or> (\<exists>e. validatePasswordData d = Inl e)"
  by (cases "validatePasswordData d") auto

text \<open>
  A field that is a non-empty string of whitespace only, or longer than its bound, is
  rejected by \<open>addPassword\<close> before any query: the world is left as it was.
\<close>

lemma addPassword_rejects_invalid:
  assumes "violates 100 (Some (new_service d)) \<or> violates 100 (Some (new_username d))
           \<or> violates 500 (Some (new_password d))"
  shows "\<exists>e. validatePasswordData (as_partial d) = Inl e
             \<and> addPassword M cl d w = (Inl (handleError M (js ''ADD_FAILED'') e), w)"
proof -
  from assms have "validatePasswordData (as_partial d) \<noteq> Inr ()"
    by (auto simp: validatePasswordData_def as_partial_def property_def js_def)
  then obtain e where "validatePasswordData (as_partial d) = Inl e"
    using validate_cases by blast
  then show ?thesis by (simp add: addPassword_def)
qed

text \<open>
  C1. The empty string is not rejected: each clause of \<open>validatePasswordData\<close> asks first
  that the field is truthy. With the service \<open>""\<close> (length 0, outside 1-100) validation
  passes and \<open>addPassword\<close> issues the insert of that row, for every client and world.
\<close>

theorem addPassword_empty_service_is_inserted:
  "validatePasswordData (as_partial
      \<lparr>new_service = [], new_username = js ''alice'', new_password = js ''secret''\<rparr>) = Inr ()
   \<and> issued (snd (addPassword M cl
        \<lparr>new_service = [], new_username = js ''alice'', new_password = js ''secret''\<rparr> w))
      = issued w @ [Insert_single
          \<lparr>new_service = [], new_username = js ''alice'', new_password = js ''secret''\<rparr>]"
  by (simp add: addPassword_def validatePasswordData_def as_partial_def property_def violates_def
      insert_row_def await_def trim_def is_ws_def js_def split: prod.splits)

section \<open>Search\<close>

text \<open>
  What sanitization guarantees: at most 100 code units, neither \<open><\<close> nor \<open>>\<close> among them,
  and a non-empty sanitized query is the text the search filter is built from.
\<close>

lemma sanitize_length: "length (sanitizeSearchQuery q) \<le> 100"
  by (simp add: sanitizeSearchQuery_def)

lemma sanitize_no_angle: "0x3C \<notin> set (sanitizeSearchQuery q) \<and> 0x3E \<notin> set (sanitizeSearchQuery q)"
  by (auto simp: sanitizeSearchQuery_def strip_angle_def dest!: in_set_takeD)

lemma search_matches_sanitized:
  "sanitizeSearchQuery q \<noteq> [] \<Longrightarrow>
     issued (snd (searchPasswords M cl q w)) = issued w @ [Select_or (ilike_filter (sanitizeSearchQuery q))]"
  by (simp add: searchPasswords_def await_def Let_def split: prod.splits)

text \<open>
  The cut to 100 code units is the last step, after the replacement: ninety-nine \<open>a\<close>
  followed by \<open>%\<close> leave ninety-nine \<open>a\<close> and a lone backslash.
\<close>

lemma sanitize_cuts_last:
  "sanitizeSearchQuery (replicate 99 0x61 @ [0x25]) = replicate 99 0x61 @ [0x5C]"
proof -
  have "\<not> is_ws 0x61" "\<not> is_ws 0x25" by (simp_all add: is_ws_def)
  then have t: "trim (replicate 99 0x61 @ [0x25]) = replicate 99 0x61 @ [0x25]"
    by (simp add: trim_def dropWhile_append3 numeral_eq_Suc)
  have r: "replace_wildcards wildcard_replacement (replicate 99 0x61 @ [0x25])
       = replicate 99 0x61 @ wildcard_replacement"
    by (simp add: replace_wildcards_def map_replicate_const concat_replicate_trivial flip: replicate_append_same)
  have f: "strip_angle (replicate 99 0x61 @ wildcard_replacement)
       = replicate 99 0x61 @ wildcard_replacement"
    by (simp add: strip_angle_def wildcard_replacement_def js_def)
  have k: "take 100 (replicate 99 0x61 @ wildcard_replacement) = replicate 99 0x61 @ [0x5C]"
    by (simp add: wildcard_replacement_def)
  show ?thesis by (simp only: sanitizeSearchQuery_def t r f k)
qed

text \<open>
  C2. A wildcard is not escaped: \<open>%\<close> is replaced by a backslash followed by a fixed text of
  thirty-six code units, and the character itself is dropped. The query \<open>100%\<close> is
  sanitized to \<open>100\<close> followed by that replacement, and this is the text the search filter
  is built from.
\<close>

theorem sanitize_percent_not_escaped:
  "sanitizeSearchQuery (js ''100%'') = js ''100'' @ 0x5C # js ''04159cb3-9186-4414-9c28-af252a86395a''
   \<and> issued (snd (searchPasswords M cl (js ''100%'') w))
       = issued w @ [Select_or (ilike_filter
           (js ''100'' @ 0x5C # js ''04159cb3-9186-4414-9c28-af252a86395a''))]"
proof -
  have s: "sanitizeSearchQuery (js ''100%'')
      = js ''100'' @ 0x5C # js ''04159cb3-9186-4414-9c28-af252a86395a''"
    by (simp add: sanitizeSearchQuery_def trim_def is_ws_def js_def replace_wildcards_def
        strip_angle_def wildcard_replacement_def)
  then have "sanitizeSearchQuery (js ''100%'') \<noteq> []" by simp
  then show ?thesis using s
    by (simp add: searchPasswords_def await_def Let_def split: prod.splits)
qed

text \<open>
  C5. For every query that is empty or consists of whitespace only, \<open>searchPasswords\<close> is
  \<open>getAllPasswords\<close>: the same outcome (the same records in the same order, or the same
  rejection) and the same world afterwards.
\<close>

theorem search_blank_is_getAll:
  "\<forall>c\<in>set query. is_ws c \<Longrightarrow> searchPasswords M cl query w = getAllPasswords M cl w"
  by (simp add: searchPasswords_def sanitize_blank)

theorem search_blank_is_getAll_witness:
  "searchPasswords Map.empty serving_rows (js ''   '') sample_world
       = getAllPasswords Map.empty serving_rows sample_world
   \<and> searchPasswords Map.empty serving_rows [] sample_world
       = getAllPasswords Map.empty serving_rows sample_world
   \<and> fst (getAllPasswords Map.empty serving_rows sample_world) =
       Inr [\<lparr>entry_id = js ''r1'', entry_service = js ''Email'', entry_username = js ''a@b.com'',
            entry_password = js ''p'', createdAt = js ''2026-01-01T00:00:00.000Z'',
            updatedAt = js ''2026-01-01T00:00:00.000Z''\<rparr>]"
proof -
  have blank: "\<forall>c\<in>set (js ''   ''). is_ws c" by (simp add: js_def is_ws_def)
  have rows: "fst (getAllPasswords Map.empty serving_rows sample_world) =
       Inr [\<lparr>entry_id = js ''r1'', entry_service = js ''Email'', entry_username = js ''a@b.com'',
            entry_password = js ''p'', createdAt = js ''2026-01-01T00:00:00.000Z'',
            updatedAt = js ''2026-01-01T00:00:00.000Z''\<rparr>]"
    by (simp add: getAllPasswords_def await_def serving_rows_def hosted_def sample_world_def
        try_catch_def or_empty_def convertFromDatabase_def requiredFields_def sample_row_def
        falsy_def js_def)
  from rows search_blank_is_getAll [OF blank, of Map.empty serving_rows sample_world]
    search_blank_is_getAll [of "[]" Map.empty serving_rows sample_world]
  show ?thesis by simp
qed

section \<open>Batch insert\<close>

lemma validate_each_ok:
  "validate_each i ps = Inr () \<longleftrightarrow> (\<forall>p\<in>set ps. validatePasswordData (as_partial p) = Inr ())"
  by (induction ps arbitrary: i) (auto split: sum.splits)

text \<open>A batch that is not empty and whose entries all pass validation issues the one insert.\<close>

lemma batchAdd_valid_issues_insert:
  assumes "passwords \<noteq> []"
      and "\<forall>p\<in>set passwords. validatePasswordData (as_partial p) = Inr ()"
  shows "issued (snd (batchAddPasswords M cl passwords w))
           = issued w @ [Insert_many (map insert_row passwords)]"
proof -
  from assms(2) have "validate_each 0 passwords = Inr ()" by (simp only: validate_each_ok)
  with assms(1) show ?thesis
    by (simp add: batchAddPasswords_def await_def split: prod.splits)
qed

text \<open>
  Whenever \<open>validatePasswordData\<close> rejects an entry, the batch is rejected and the world is
  left as it was: no query is issued.
\<close>

lemma batchAdd_rejects_whole_batch:
  assumes "\<exists>p\<in>set passwords. validatePasswordData (as_partial p) \<noteq> Inr ()"
  shows "\<exists>e. batchAddPasswords M cl passwords w = (Inl e, w)"
proof -
  from assms have ne: "passwords \<noteq> []" by auto
  from assms have "validate_each 0 passwords \<noteq> Inr ()" by (simp add: validate_each_ok)
  then obtain e where "validate_each 0 passwords = Inl e"
    by (cases "validate_each 0 passwords") auto
  with ne show ?thesis by (simp add: batchAddPasswords_def)
qed

lemma batchAdd_rejects_sample:
  "batchAddPasswords Map.empty hosted sample_batch sample_world
      = (Inl (Error (js ''Operation failed: Validation failed for password 3: Error: Username must be between 1-100 characters'')),
         sample_world)"
  by (simp add: sample_batch_def batchAddPasswords_def validatePasswordData_def as_partial_def
      property_def violates_def trim_def is_ws_def js_def handleError_def error_toString_def
      decimal.simps)

text \<open>
  C3. An entry with an empty field is invalid by the constraints on the fields, yet
  \<open>validatePasswordData\<close> lets it pass (each clause asks first that the field is truthy).
  In the batch of a valid entry and an entry whose service is \<open>""\<close>, every entry passes the
  \<open>forEach\<close>, and \<open>batchAddPasswords\<close> issues the insert of both rows, for every client
  and world.
\<close>

theorem batchAdd_empty_service_is_inserted:
  "validate_each 0 gap_batch = Inr ()
   \<and> issued (snd (batchAddPasswords M cl gap_batch w)) = issued w @ [Insert_many gap_batch]"
proof -
  have v: "\<forall>p\<in>set gap_batch. validatePasswordData (as_partial p) = Inr ()"
    by (simp add: gap_batch_def validatePasswordData_def as_partial_def property_def violates_def
        trim_def is_ws_def js_def)
  then have "validate_each 0 gap_batch = Inr ()" by (simp only: validate_each_ok)
  moreover have "gap_batch \<noteq> []" by (simp add: gap_batch_def)
  moreover have "map insert_row gap_batch = gap_batch" by (simp add: gap_batch_def insert_row_def)
  ultimately show ?thesis using batchAdd_valid_issues_insert [OF _ v, of M cl w] by simp
qed

section \<open>Update\<close>

lemma property_cases:
  "property d k = None \<or> (\<exists>v. property d k = Some v \<and> (k, Some v) \<in> set d)"
proof (cases "map_of d k")
  case None
  then show ?thesis by (simp add: property_def)
next
  case (Some x)
  then have "(k, x) \<in> set d" by (rule map_of_SomeD)
  with Some show ?thesis by (cases x) (simp_all add: property_def)
qed

lemma fold_keep_distinct:
  "distinct (map fst acc) \<Longrightarrow> distinct (map fst (fold keep_entry d acc))"
  by (induction d arbitrary: acc) (auto simp: keep_entry_def AList.distinct_update split: option.splits)

lemma fold_keep_map_of:
  "map_of (fold keep_entry d acc) k = Some v
   \<Longrightarrow> map_of acc k = Some v \<or> ((k, Some v) \<in> set d \<and> trim v \<noteq> [])"
proof (induction d arbitrary: acc)
  case Nil
  then show ?case by simp
next
  case (Cons x d)
  from Cons.prems have "map_of (fold keep_entry d (keep_entry x acc)) k = Some v" by simp
  from Cons.IH [OF this]
  show ?case
    by (cases x) (auto simp: keep_entry_def AList.update_conv' split: option.splits if_splits)
qed


lemma fold_keep_falsy:
  "\<forall>kv\<in>set d. falsy (snd kv) \<Longrightarrow> fold keep_entry d acc = acc"
  by (induction d arbitrary: acc) (auto simp: keep_entry_def falsy_def split: option.splits)

lemma updateFields_distinct: "distinct (map fst (updateFields d))"
  by (simp add: updateFields_def fold_keep_distinct)

lemma updateFields_map_of:
  "map_of (updateFields d) k = Some v \<Longrightarrow> (k, Some v) \<in> set (entries d) \<and> trim v \<noteq> []"
  using fold_keep_map_of [of "entries d" "[]" k v] by (simp add: updateFields_def)

lemma updateFields_sound:
  "(k, v) \<in> set (updateFields d) \<Longrightarrow> trim v \<noteq> [] \<and> (k, Some v) \<in> set (entries d)"
  using updateFields_map_of [of d k v] updateFields_distinct [of d] by simp


lemma updateFields_empty:
  "\<forall>kv\<in>set (entries d). falsy (snd kv) \<Longrightarrow> updateFields d = []"
  by (simp add: updateFields_def fold_keep_falsy)

lemma property_falsy:
  "\<forall>kv\<in>set (entries d). falsy (snd kv) \<Longrightarrow> falsy (property d k)"
  using property_cases [of d k] by (auto simp: entries_def falsy_def)

lemma violates_falsy: "falsy v \<Longrightarrow> \<not> violates n v"
  by (auto simp: violates_def falsy_def split: option.splits)

lemma validate_falsy:
  "\<forall>kv\<in>set (entries d). falsy (snd kv) \<Longrightarrow> validatePasswordData d = Inr ()"
  by (simp add: validatePasswordData_def violates_falsy property_falsy)

lemma whitespace_violates: "whitespace_only v \<Longrightarrow> violates n v"
  by (auto simp: whitespace_only_def violates_def split: option.splits)

text \<open>The error that \<open>validatePasswordData\<close> throws: the message of the first clause that fires.\<close>

lemma validate_first_message:
  assumes "violates 100 (property d (js ''service'')) \<or> violates 100 (property d (js ''username''))
           \<or> violates 500 (property d (js ''password''))"
  shows "validatePasswordData d = Inl (Error
     (if violates 100 (property d (js ''service'')) then
        js ''Service name must be between 1-100 characters''
      else if violates 100 (property d (js ''username'')) then
        js ''Username must be between 1-100 characters''
      else js ''Password must be between 1-500 characters''))"
  using assms by (auto simp: validatePasswordData_def)

text \<open>
  C4. For every id that does not trim to the empty string, an update with the empty object
  \<open>{}\<close> fails with \<open>No valid fields to update\<close>, behind the message prefix of the
  operation, and leaves the world as it was: no query is issued.
\<close>

theorem update_empty_object:
  "trim ident \<noteq> [] \<Longrightarrow>
     updatePassword M cl ident [] w =
       (Inl (handleError M (js ''UPDATE_FAILED'') (Error (js ''No valid fields to update''))), w)"
  by (simp add: updatePassword_def validatePasswordData_def violates_def property_def
      updateFields_def entries_def)

theorem update_empty_object_witness:
  "updatePassword Map.empty hosted (js ''r1'') [] sample_world
    = (Inl (Error (js ''Operation failed: No valid fields to update'')), sample_world)"
proof -
  have "trim (js ''r1'') \<noteq> []" by (simp add: trim_def is_ws_def js_def)
  from update_empty_object [OF this, of Map.empty hosted sample_world]
  show ?thesis by (simp add: handleError_def js_def)
qed

text \<open>An id that trims to the empty string is refused by the guard before anything else.\<close>

lemma update_blank_id:
  "trim ident = [] \<Longrightarrow>
     updatePassword M cl ident d w =
       (Inl (handleError M (js ''UPDATE_FAILED'') (Error (js ''Password ID is required''))), w)"
  by (simp add: updatePassword_def)

text \<open>
  C10. Every entry of the update payload is an entry of the input whose value does not trim
  to the empty string: a value that is \<open>undefined\<close>, \<open>null\<close> or blank is never sent. The
  operation either leaves the world as it was or issues the one update with that payload.
  With an id that is not blank: if every value of the input is \<open>undefined\<close>, \<open>null\<close> or
  \<open>""\<close>, it fails with \<open>No valid fields to update\<close> and the world unchanged; if service,
  username or password is a non-empty string of whitespace only, it fails instead with the
  message of the first clause of \<open>validatePasswordData\<close> that fires (service, then
  username, then password), also with the world unchanged.
\<close>

theorem update_payload_never_blank:
  "(\<forall>(k, v)\<in>set (updateFields d). trim v \<noteq> [] \<and> (k, Some v) \<in> set (entries d))
   \<and> (snd (updatePassword M cl ident d w) = w
        \<or> snd (updatePassword M cl ident d w)
            = snd (await (single_query cl) (Update_eq (updateFields d) ident) w))
   \<and> (trim ident \<noteq> [] \<and> (\<forall>kv\<in>set (entries d). falsy (snd kv))
        \<longrightarrow> updatePassword M cl ident d w =
              (Inl (handleError M (js ''UPDATE_FAILED'') (Error (js ''No valid fields to update''))), w))
   \<and> (trim ident \<noteq> [] \<and> (whitespace_only (property d (js ''service''))
          \<or> whitespace_only (property d (js ''username''))
          \<or> whitespace_only (property d (js ''password'')))
        \<longrightarrow> updatePassword M cl ident d w =
              (Inl (handleError M (js ''UPDATE_FAILED'') (Error
                 (if violates 100 (property d (js ''service'')) then
                    js ''Service name must be between 1-100 characters''
                  else if violates 100 (property d (js ''username'')) then
                    js ''Username must be between 1-100 characters''
                  else js ''Password must be between 1-500 characters''))), w))"
proof (intro conjI impI)
  show "\<forall>(k, v)\<in>set (updateFields d). trim v \<noteq> [] \<and> (k, Some v) \<in> set (entries d)"
    using updateFields_sound by blast
next
  show "snd (updatePassword M cl ident d w) = w
        \<or> snd (updatePassword M cl ident d w)
            = snd (await (single_query cl) (Update_eq (updateFields d) ident) w)"
    by (simp add: updatePassword_def Let_def split: sum.splits prod.splits)
next
  assume "trim ident \<noteq> [] \<and> (\<forall>kv\<in>set (entries d). falsy (snd kv))"
  then show "updatePassword M cl ident d w =
              (Inl (handleError M (js ''UPDATE_FAILED'') (Error (js ''No valid fields to update''))), w)"
    by (simp add: updatePassword_def updateFields_empty validate_falsy)
next
  assume a: "trim ident \<noteq> [] \<and> (whitespace_only (property d (js ''service''))
          \<or> whitespace_only (property d (js ''username''))
          \<or> whitespace_only (property d (js ''password'')))"
  then have "violates 100 (property d (js ''service'')) \<or> violates 100 (property d (js ''username''))
           \<or> violates 500 (property d (js ''password''))"
    using whitespace_violates by blast
  from validate_first_message [OF this] a
  show "updatePassword M cl ident d w =
              (Inl (handleError M (js ''UPDATE_FAILED'') (Error
                 (if violates 100 (property d (js ''service'')) then
                    js ''Service name must be between 1-100 characters''
                  else if violates 100 (property d (js ''username'')) then
                    js ''Username must be between 1-100 characters''
                  else js ''Password must be between 1-500 characters''))), w)"
    by (simp add: updatePassword_def)
qed

theorem update_payload_never_blank_witness:
  "updateFields [(js ''service'', Some []), (js ''username'', None), (js ''password'', Some (js ''q''))]
     = [(js ''password'', js ''q'')]
   \<and> updatePassword Map.empty hosted (js ''r1'')
        [(js ''service'', Some []), (js ''username'', None)] sample_world
      = (Inl (Error (js ''Operation failed: No valid fields to update'')), sample_world)
   \<and> updatePassword Map.empty hosted (js ''r1'')
        [(js ''service'', Some (replicate 101 0x61)), (js ''username'', Some (js '' ''))] sample_world
      = (Inl (Error (js ''Operation failed: Service name must be between 1-100 characters'')),
         sample_world)
   \<and> updatePassword Map.empty hosted (js ''r1'') [(js ''username'', Some (js '' ''))] sample_world
      = (Inl (Error (js ''Operation failed: Username must be between 1-100 characters'')),
         sample_world)"
proof -
  have ident: "trim (js ''r1'') \<noteq> []" by (simp add: trim_def is_ws_def js_def)
  have a: "updateFields
      [(js ''service'', Some []), (js ''username'', None), (js ''password'', Some (js ''q''))]
     = [(js ''password'', js ''q'')]"
    by (simp add: updateFields_def entries_def keep_entry_def trim_def is_ws_def js_def)
  have ws: "whitespace_only (Some (js '' ''))"
    by (simp add: whitespace_only_def trim_def is_ws_def js_def)
  have long: "violates 100 (Some (replicate 101 0x61))" "\<not> violates 100 None"
    by (simp_all add: violates_def)
  from ident update_payload_never_blank [of
      "[(js ''service'', Some []), (js ''username'', None)]" Map.empty hosted "js ''r1''" sample_world]
  have b: "updatePassword Map.empty hosted (js ''r1'')
        [(js ''service'', Some []), (js ''username'', None)] sample_world
      = (Inl (Error (js ''Operation failed: No valid fields to update'')), sample_world)"
    by (simp add: entries_def falsy_def handleError_def js_def)
  from ident ws long update_payload_never_blank [of
      "[(js ''service'', Some (replicate 101 0x61)), (js ''username'', Some (js '' ''))]"
      Map.empty hosted "js ''r1''" sample_world]
  have c: "updatePassword Map.empty hosted (js ''r1'')
        [(js ''service'', Some (replicate 101 0x61)), (js ''username'', Some (js '' ''))] sample_world
      = (Inl (Error (js ''Operation failed: Service name must be between 1-100 characters'')),
         sample_world)"
    by (simp add: property_def handleError_def js_def)
  from ident ws long update_payload_never_blank [of
      "[(js ''username'', Some (js '' ''))]" Map.empty hosted "js ''r1''" sample_world]
  have d: "updatePassword Map.empty hosted (js ''r1'') [(js ''username'', Some (js '' ''))] sample_world
      = (Inl (Error (js ''Operation failed: Username must be between 1-100 characters'')),
         sample_world)"
    by (simp add: property_def handleError_def whitespace_violates js_def)
  from a b c d show ?thesis by blast
qed

text \<open>
  With the service of two spaces the update fails with the message of the validation, not
  with \<open>No valid fields to update\<close>.
\<close>

theorem update_whitespace_field:
  "updatePassword Map.empty hosted (js ''r1'') [(js ''service'', Some (js ''  ''))] sample_world
    = (Inl (Error (js ''Operation failed: Service name must be between 1-100 characters'')), sample_world)
   \<and> js ''Operation failed: Service name must be between 1-100 characters''
       \<noteq> js ''Operation failed: No valid fields to update''"
  by (simp add: updatePassword_def validatePasswordData_def property_def violates_def handleError_def
      trim_def is_ws_def js_def)

section \<open>Conversion\<close>

lemma first_missing_None:
  "first_missing r fs = None \<longleftrightarrow> (\<forall>f\<in>set fs. \<not> falsy (row_get r f))"
  by (induction fs) auto

lemma first_missing_Some:
  "first_missing r fs = Some g \<Longrightarrow> g \<in> set fs \<and> falsy (row_get r g)"
  by (induction fs) (auto split: if_splits)

lemma set_requiredFields: "set requiredFields = UNIV"
proof -
  have "f \<in> set requiredFields" for f by (cases f) (simp_all add: requiredFields_def)
  then show ?thesis by blast
qed

lemma not_falsy: "\<not> falsy v \<longleftrightarrow> (\<exists>s. v = Some s \<and> s \<noteq> [])"
  by (cases v) (simp_all add: falsy_def)

lemma convert_Inr:
  assumes "convertFromDatabase (Some r) = Inr e"
  shows "r = row_of e"
proof -
  from assms have none: "first_missing r requiredFields = None"
    by (simp add: convertFromDatabase_def split: option.splits)
  then have all: "\<not> falsy (row_get r f)" for f
    by (simp add: first_missing_None set_requiredFields)
  from all [of Id] all [of Service] all [of Username] all [of Password]
       all [of Created_at] all [of Updated_at]
  obtain a b c d x y where "row_id r = Some a" "row_service r = Some b" "row_username r = Some c"
    "row_password r = Some d" "created_at r = Some x" "updated_at r = Some y"
    by (auto simp: not_falsy)
  with assms none show ?thesis
    by (cases r) (auto simp: convertFromDatabase_def row_of_def)
qed

lemma convert_total:
  assumes "\<And>f. \<not> falsy (row_get r f)"
  shows "\<exists>e. convertFromDatabase (Some r) = Inr e"
proof -
  from assms have "first_missing r requiredFields = None" by (simp add: first_missing_None)
  then show ?thesis by (simp add: convertFromDatabase_def)
qed

lemma convert_missing:
  assumes "falsy (row_get r f)"
  shows "\<exists>g. falsy (row_get r g) \<and>
     convertFromDatabase (Some r) = Inl (Error (js ''Missing required field: '' @ column_name g))"
proof -
  from assms have "first_missing r requiredFields \<noteq> None"
    by (auto simp: first_missing_None set_requiredFields)
  then obtain g where g: "first_missing r requiredFields = Some g" by auto
  then have "falsy (row_get r g)" by (auto dest: first_missing_Some)
  with g show ?thesis by (auto simp: convertFromDatabase_def)
qed

text \<open>
  C7. A row that is \<open>null\<close> fails to convert. A row on which any of the six required fields
  is absent fails with \<open>Missing required field\<close>, naming a field that is absent or empty. A
  row on which all six fields are present and non-empty converts, and whenever a row
  converts, it is field for field the row of the record returned (\<open>created_at\<close> as
  \<open>createdAt\<close>, \<open>updated_at\<close> as \<open>updatedAt\<close>): no partially populated record is returned.
\<close>

theorem convertFromDatabase_rename:
  "(convertFromDatabase None = Inl (Error (js ''Database row is null or undefined'')))
   \<and> ((\<exists>f. row_get r f = None) \<longrightarrow>
        (\<exists>g. falsy (row_get r g) \<and> convertFromDatabase (Some r) =
               Inl (Error (js ''Missing required field: '' @ column_name g))))
   \<and> ((\<forall>f. \<not> falsy (row_get r f)) \<longrightarrow> (\<exists>e. convertFromDatabase (Some r) = Inr e))
   \<and> (\<forall>e. convertFromDatabase (Some r) = Inr e \<longrightarrow> r = row_of e)"
proof (intro conjI impI allI)
  show "convertFromDatabase None = Inl (Error (js ''Database row is null or undefined''))"
    by (simp add: convertFromDatabase_def)
next
  assume "\<exists>f. row_get r f = None"
  then obtain f where "row_get r f = None" by blast
  then have "falsy (row_get r f)" by (simp add: falsy_def)
  then show "\<exists>g. falsy (row_get r g) \<and> convertFromDatabase (Some r) =
               Inl (Error (js ''Missing required field: '' @ column_name g))"
    by (rule convert_missing)
next
  assume "\<forall>f. \<not> falsy (row_get r f)"
  then show "\<exists>e. convertFromDatabase (Some r) = Inr e" by (simp add: convert_total)
next
  fix e assume "convertFromDatabase (Some r) = Inr e"
  then show "r = row_of e" by (rule convert_Inr)
qed

theorem convertFromDatabase_rename_witness:
  "(\<exists>f. row_get (sample_row\<lparr>row_password := None\<rparr>) f = None)
   \<and> convertFromDatabase (Some (sample_row\<lparr>row_password := None\<rparr>))
       = Inl (Error (js ''Missing required field: password''))
   \<and> (\<forall>f. \<not> falsy (row_get sample_row f))
   \<and> convertFromDatabase (Some sample_row) =
       Inr \<lparr>entry_id = js ''r1'', entry_service = js ''Email'', entry_username = js ''a@b.com'',
            entry_password = js ''p'', createdAt = js ''2026-01-01T00:00:00.000Z'',
            updatedAt = js ''2026-01-01T00:00:00.000Z''\<rparr>"
proof -
  have a: "row_get (sample_row\<lparr>row_password := None\<rparr>) Password = None" by simp
  have b: "\<not> falsy (row_get sample_row f)" for f
    by (cases f) (simp_all add: sample_row_def falsy_def js_def)
  have c: "convertFromDatabase (Some (sample_row\<lparr>row_password := None\<rparr>))
       = Inl (Error (js ''Missing required field: password''))"
    by (simp add: convertFromDatabase_def requiredFields_def sample_row_def falsy_def js_def)
  have d: "convertFromDatabase (Some sample_row) =
       Inr \<lparr>entry_id = js ''r1'', entry_service = js ''Email'', entry_username = js ''a@b.com'',
            entry_password = js ''p'', createdAt = js ''2026-01-01T00:00:00.000Z'',
            updatedAt = js ''2026-01-01T00:00:00.000Z''\<rparr>"
    by (simp add: convertFromDatabase_def requiredFields_def sample_row_def falsy_def js_def)
  from a b c d convertFromDatabase_rename [of "sample_row\<lparr>row_password := None\<rparr>"]
    convertFromDatabase_rename [of sample_row]
  show ?thesis by blast
qed

section \<open>The frame of an update\<close>


lemma column_named_name [simp]: "column_named (column_name c) = Some c"
  by (cases c) (simp_all add: column_named_def requiredFields_def js_def)











section \<open>Dates\<close>

lemma div_bounds:
  fixes x k :: int
  assumes "0 < k"
  shows "k * (x div k) \<le> x" and "x < k * (x div k) + k"
proof -
  have "x = k * (x div k) + x mod k" by simp
  moreover have "0 \<le> x mod k" "x mod k < k" using assms by simp_all
  ultimately show "k * (x div k) \<le> x" and "x < k * (x div k) + k" by linarith+
qed

lemma year_lower_arith:
  fixes d q a b c :: int
  assumes "146097 * q \<le> 400 * d" "4 * a \<le> q" "q + 68 < 100 * b + 100" "400 * c \<le> q + 368"
  shows "365 * (q - 1) + a - b + c \<le> d"
proof -
  have 1: "400 * a \<le> 100 * q" using assms(2) by simp
  have 2: "4 * q - 128 < 400 * b" using assms(3) by simp
  have "400 * (365 * (q - 1) + a - b + c) \<le> 146097 * q"
    using 1 2 assms(4) by (simp add: algebra_simps)
  then have "400 * (365 * (q - 1) + a - b + c) \<le> 400 * d" using assms(1) by simp
  then show ?thesis by simp
qed

lemma year_upper_arith:
  fixes d q a b c :: int
  assumes "400 * d < 146097 * q + 146097" "q + 3 < 4 * a + 4" "100 * b \<le> q + 71"
    "q + 371 < 400 * c + 400"
  shows "d < 365 * (q + 2) + a - b + c"
proof -
  have 1: "100 * q - 100 < 400 * a" using assms(2) by simp
  have 2: "400 * b \<le> 4 * q + 284" using assms(3) by simp
  have "146097 * q + 146097 \<le> 400 * (365 * (q + 2) + a - b + c)"
    using 1 2 assms(4) by (simp add: algebra_simps)
  then have "400 * d < 400 * (365 * (q + 2) + a - b + c)" using assms(1) by simp
  then show ?thesis by simp
qed

lemma DayFromYear_step_lower: "DayFromYear (1970 + (400 * d) div 146097 - 1) \<le> d"
proof -
  define q where "q = (400 * d) div 146097"
  have e: "DayFromYear (1970 + q - 1)
      = 365 * (q - 1) + q div 4 - (q + 68) div 100 + (q + 368) div 400"
    by (simp add: DayFromYear_def algebra_simps)
  have "365 * (q - 1) + q div 4 - (q + 68) div 100 + (q + 368) div 400 \<le> d"
    by (rule year_lower_arith [where q = q])
       (simp_all add: q_def div_bounds)
  with e show ?thesis by (simp add: q_def)
qed

lemma DayFromYear_step_upper: "d < DayFromYear (1970 + (400 * d) div 146097 + 2)"
proof -
  define q where "q = (400 * d) div 146097"
  have e: "DayFromYear (1970 + q + 2)
      = 365 * (q + 2) + (q + 3) div 4 - (q + 71) div 100 + (q + 371) div 400"
    by (simp add: DayFromYear_def algebra_simps)
  have "d < 365 * (q + 2) + (q + 3) div 4 - (q + 71) div 100 + (q + 371) div 400"
    by (rule year_upper_arith [where q = q])
       (simp_all add: q_def div_bounds)
  with e show ?thesis by (simp add: q_def)
qed

text \<open>\<open>year_of_day\<close> is the year of the language definition: the one whose days hold \<open>d\<close>.\<close>

lemma year_of_day_correct:
  "DayFromYear (year_of_day d) \<le> d \<and> d < DayFromYear (year_of_day d + 1)"
  using DayFromYear_step_lower [of d] DayFromYear_step_upper [of d]
  by (auto simp: year_of_day_def Let_def algebra_simps)

lemma month_of_range: "0 \<le> month_of dwy leap \<and> month_of dwy leap \<le> 11"
  by (simp add: month_of_def Let_def)

lemma MakeDay_of_time:
  "MakeDay (YearFromTime t) (MonthFromTime t) dt = Day t - DateFromTime t + dt"
proof -
  have r: "0 \<le> MonthFromTime t" "MonthFromTime t \<le> 11"
    using month_of_range by (simp_all add: MonthFromTime_def)
  then have "MonthFromTime t div 12 = 0" "MonthFromTime t mod 12 = MonthFromTime t" by simp_all
  then show ?thesis
    by (simp add: MakeDay_def DateFromTime_def DayWithinYear_def Let_def)
qed

text \<open>
  \<open>setDate(getDate() - 7)\<close> moves the local time back by seven days of 86400000 ms and
  reads the result as a local time again.
\<close>

lemma sevenDaysAgo_eq:
  "sevenDaysAgo tz now =
     TimeClip (now + tz now True - 7 * msPerDay - tz (now + tz now True - 7 * msPerDay) False)"
proof -
  let ?lt = "LocalTime tz now"
  have "MakeDate (MakeDay (YearFromTime ?lt) (MonthFromTime ?lt) (DateFromTime ?lt - 7))
          (TimeWithinDay ?lt) = ?lt - 7 * msPerDay"
    by (simp add: MakeDay_of_time MakeDate_def Day_def TimeWithinDay_def algebra_simps)
  then show ?thesis
    by (simp add: sevenDaysAgo_def setDate_def getDate_def Let_def UTC_def LocalTime_def)
qed

lemma replicate_numeral: "replicate (numeral k) x = x # replicate (pred_numeral k) x"
  by (simp add: numeral_eq_Suc)

lemmas iso_simps = toISOString_def YearFromTime_def year_of_day_def Day_def msPerDay_def
  DayFromYear_def MonthFromTime_def month_of_def DayWithinYear_def leap_year_def DateFromTime_def
  month_start_def pad_def decimal.simps js_def Let_def replicate_numeral

section \<open>Statistics\<close>

text \<open>
  C8. When the count of all rows succeeds with \<open>n\<close> and the date seven days back is valid:
  the cutoff is the clock reading moved back seven days in local time (604800000 ms before
  the reading when the zone offset is the same at both ends), and the second query counts
  the rows with \<open>created_at\<close> not before the ISO text of that cutoff. If it succeeds with
  \<open>m\<close>, the result is \<open>total = n\<close> and \<open>recentCount = m\<close>; if it fails (an error and no
  count), the result is \<open>total = n\<close> and \<open>recentCount = 0\<close>. In both cases the operation
  returns, having issued the two counts.
\<close>

theorem getPasswordStats_counts:
  assumes "head_query cl Count_all (remote w) = (r1, db1)"
      and "error r1 = None" and "count r1 = Some n"
      and "sevenDaysAgo tz now = Some cutoff"
      and "head_query cl (Count_gte (toISOString cutoff)) db1 = (r2, db2)"
  shows "cutoff = now + tz now True - 7 * 86400000 - tz (now + tz now True - 7 * 86400000) False
       \<and> (tz (now + tz now True - 7 * 86400000) False = tz now True \<longrightarrow> cutoff = now - 604800000)
       \<and> (error r2 = None \<and> count r2 = Some m \<longrightarrow>
            getPasswordStats cl tz now w =
              (\<lparr>total = n, recentCount = m\<rparr>,
               \<lparr>remote = db2, issued = issued w @ [Count_all, Count_gte (toISOString cutoff)]\<rparr>))
       \<and> (error r2 \<noteq> None \<and> count r2 = None \<longrightarrow>
            getPasswordStats cl tz now w =
              (\<lparr>total = n, recentCount = 0\<rparr>,
               \<lparr>remote = db2, issued = issued w @ [Count_all, Count_gte (toISOString cutoff)]\<rparr>))"
proof -
  from assms(4) have c: "cutoff = now + tz now True - 7 * 86400000
      - tz (now + tz now True - 7 * 86400000) False"
    by (simp add: sevenDaysAgo_eq TimeClip_def msPerDay_def split: if_splits)
  then have "tz (now + tz now True - 7 * 86400000) False = tz now True \<longrightarrow> cutoff = now - 604800000"
    by simp
  moreover from assms have "error r2 = None \<and> count r2 = Some m \<longrightarrow>
            getPasswordStats cl tz now w =
              (\<lparr>total = n, recentCount = m\<rparr>,
               \<lparr>remote = db2, issued = issued w @ [Count_all, Count_gte (toISOString cutoff)]\<rparr>)"
    by (simp add: getPasswordStats_def await_def or_zero_def)
  moreover from assms have "error r2 \<noteq> None \<and> count r2 = None \<longrightarrow>
            getPasswordStats cl tz now w =
              (\<lparr>total = n, recentCount = 0\<rparr>,
               \<lparr>remote = db2, issued = issued w @ [Count_all, Count_gte (toISOString cutoff)]\<rparr>)"
    by (simp add: getPasswordStats_def await_def or_zero_def)
  ultimately show ?thesis using c by blast
qed

theorem getPasswordStats_counts_witness:
  "sevenDaysAgo indochina 1767441600000 = Some 1766836800000
   \<and> toISOString 1767441600000 = js ''2026-01-03T12:00:00.000Z''
   \<and> toISOString 1766836800000 = js ''2025-12-27T12:00:00.000Z''
   \<and> getPasswordStats counting_recent indochina 1767441600000 sample_world =
       (\<lparr>total = 1, recentCount = 1\<rparr>,
        \<lparr>remote = remote sample_world,
         issued = [Count_all, Count_gte (js ''2025-12-27T12:00:00.000Z'')]\<rparr>)
   \<and> getPasswordStats counting indochina 1767441600000 sample_world =
       (\<lparr>total = 1, recentCount = 0\<rparr>,
        \<lparr>remote = remote sample_world,
         issued = [Count_all, Count_gte (js ''2025-12-27T12:00:00.000Z'')]\<rparr>)"
proof -
  have cut: "sevenDaysAgo indochina 1767441600000 = Some 1766836800000"
    by (simp add: sevenDaysAgo_eq TimeClip_def msPerDay_def indochina_def)
  have iso0: "toISOString 1767441600000 = js ''2026-01-03T12:00:00.000Z''"
    by (simp add: iso_simps)
  have iso: "toISOString 1766836800000 = js ''2025-12-27T12:00:00.000Z''"
    by (simp add: iso_simps)
  have a1: "head_query counting_recent Count_all (remote sample_world)
      = (\<lparr>data = None, error = None, count = Some 1\<rparr>, remote sample_world)"
    by (simp add: counting_recent_def sample_world_def)
  have b1: "head_query counting_recent (Count_gte (toISOString 1766836800000)) (remote sample_world)
      = (\<lparr>data = None, error = None, count = Some 1\<rparr>, remote sample_world)"
    by (simp add: iso) (simp add: counting_recent_def sample_world_def sample_row_def js_def)
  have a2: "head_query counting Count_all (remote sample_world)
      = (\<lparr>data = None, error = None, count = Some 1\<rparr>, remote sample_world)"
    by (simp add: counting_def sample_world_def)
  have b2: "head_query counting (Count_gte (toISOString 1766836800000)) (remote sample_world)
      = (failed (Error (js ''Failed to fetch'')), remote sample_world)"
    by (simp add: counting_def)
  from getPasswordStats_counts [OF a1 _ _ cut b1, of 1 1]
  have s1: "getPasswordStats counting_recent indochina 1767441600000 sample_world =
       (\<lparr>total = 1, recentCount = 1\<rparr>,
        \<lparr>remote = remote sample_world,
         issued = [Count_all, Count_gte (js ''2025-12-27T12:00:00.000Z'')]\<rparr>)"
    by (simp add: iso sample_world_def)
  from getPasswordStats_counts [OF a2 _ _ cut b2, of 1 0]
  have s2: "getPasswordStats counting indochina 1767441600000 sample_world =
       (\<lparr>total = 1, recentCount = 0\<rparr>,
        \<lparr>remote = remote sample_world,
         issued = [Count_all, Count_gte (js ''2025-12-27T12:00:00.000Z'')]\<rparr>)"
    by (simp add: iso failed_def sample_world_def)
  from cut iso0 iso s1 s2 show ?thesis by blast
qed

section \<open>Configuration\<close>

text \<open>
  C9. Loading the client module fails, before the client is created, exactly when one of the
  two values is absent (unset or empty), and the message lists the names of the absent
  values and no other: both, \<open>supabaseUrl\<close> alone, or \<open>supabaseAnonKey\<close> alone. When both
  are present the client is created from them.
\<close>

theorem validateConfig_missing:
  "load_module createClient cfg =
     (if falsy (supabaseUrl cfg) \<and> falsy (supabaseAnonKey cfg) then
        Inl (Error (js ''Missing environment variables: supabaseUrl, supabaseAnonKey''))
      else if falsy (supabaseUrl cfg) then
        Inl (Error (js ''Missing environment variables: supabaseUrl''))
      else if falsy (supabaseAnonKey cfg) then
        Inl (Error (js ''Missing environment variables: supabaseAnonKey''))
      else Inr (createClient (supabaseUrl cfg) (supabaseAnonKey cfg)))"
  by (simp add: load_module_def validateConfig_def config_entries_def js_def)

theorem validateConfig_missing_witness:
  "load_module Pair \<lparr>supabaseUrl = None, supabaseAnonKey = Some (js ''key'')\<rparr>
     = Inl (Error (js ''Missing environment variables: supabaseUrl''))
   \<and> load_module Pair \<lparr>supabaseUrl = Some (js ''https://db.example''),
        supabaseAnonKey = Some (js ''key'')\<rparr>
     = Inr (Some (js ''https://db.example''), Some (js ''key''))"
  using validateConfig_missing [of Pair "\<lparr>supabaseUrl = None, supabaseAnonKey = Some (js ''key'')\<rparr>"]
    validateConfig_missing [of Pair "\<lparr>supabaseUrl = Some (js ''https://db.example''),
        supabaseAnonKey = Some (js ''key'')\<rparr>"]
  by (simp add: falsy_def js_def)

end
